theory Spec2Isabelle
  imports Complex_Main
begin

section \<open>Values\<close>

text \<open>
  The source file holds two Node.js programs, lines 1 to 168 and lines 169 to 358: the same
  server, once with the route \<open>POST /predict\<close> and once with the route \<open>POST /ai/predict\<close>.
  Request bodies, upstream replies and history entries are JSON values. A JavaScript number is an IEEE double; here it is a rational, so sums are
  exact and there is no overflow to \<open>Infinity\<close> and no \<open>NaN\<close> inside a JSON value. An object is
  the list of its properties in insertion order, as \<open>JSON.parse\<close> builds it (each key
  once); \<open>undefined\<close> is \<open>None\<close> of \<open>json option\<close>.
\<close>

datatype json =
    JNull
  | JBool bool
  | JNum rat
  | JStr string
  | JArr "json list"
  | JObj "(string \<times> json) list"

text \<open>
  What the language does with operands that are strings, arrays or objects where a number is
  expected (parsing a numeric literal, printing a number for a concatenation) is the
  ECMAScript runtime's work and is a parameter of the model: \<open>coerce_number\<close> is
  \<open>Number(v)\<close> for such a \<open>v\<close> (\<open>None\<close> is \<open>NaN\<close>), \<open>string_concat\<close> is \<open>a + b\<close> when one
  operand is such a value.
\<close>

record coercions =
  coerce_number :: "json \<Rightarrow> rat option"
  string_concat :: "json \<Rightarrow> json \<Rightarrow> string"

definition primitive_number :: "json \<Rightarrow> rat option" where
  "primitive_number v =
     (case v of
        JNull \<Rightarrow> Some 0
      | JBool b \<Rightarrow> Some (if b then 1 else 0)
      | JNum x \<Rightarrow> Some x
      | _ \<Rightarrow> None)"

text \<open>\<open>Number(v)\<close>; \<open>None\<close> is \<open>NaN\<close>.\<close>

definition Number :: "coercions \<Rightarrow> json \<Rightarrow> rat option" where
  "Number rt v =
     (case primitive_number v of Some x \<Rightarrow> Some x | None \<Rightarrow> coerce_number rt v)"

text \<open>The operator \<open>+\<close> of \<open>total_confidence += c\<close>.\<close>

definition js_add :: "coercions \<Rightarrow> json \<Rightarrow> json \<Rightarrow> json" where
  "js_add rt a b =
     (case (primitive_number a, primitive_number b) of
        (Some x, Some y) \<Rightarrow> JNum (x + y)
      | _ \<Rightarrow> JStr (string_concat rt a b))"

text \<open>\<open>v > c\<close> for a number \<open>c\<close>: false when \<open>v\<close> converts to \<open>NaN\<close>.\<close>

definition js_gt :: "coercions \<Rightarrow> json \<Rightarrow> rat \<Rightarrow> bool" where
  "js_gt rt v c = (case Number rt v of None \<Rightarrow> False | Some x \<Rightarrow> c < x)"

text \<open>Truthiness, as \<open>!v\<close> and \<open>v || d\<close> read it.\<close>

definition truthy :: "json option \<Rightarrow> bool" where
  "truthy v =
     (case v of
        None \<Rightarrow> False
      | Some JNull \<Rightarrow> False
      | Some (JBool b) \<Rightarrow> b
      | Some (JNum x) \<Rightarrow> x \<noteq> 0
      | Some (JStr s) \<Rightarrow> s \<noteq> []
      | Some _ \<Rightarrow> True)"

text \<open>\<open>v || d\<close>.\<close>

definition js_or :: "json option \<Rightarrow> json \<Rightarrow> json" where
  "js_or v d = (case v of None \<Rightarrow> d | Some x \<Rightarrow> (if truthy v then x else d))"

definition isArray :: "json option \<Rightarrow> bool" where
  "isArray v = (case v of Some (JArr _) \<Rightarrow> True | _ \<Rightarrow> False)"

definition elements :: "json option \<Rightarrow> json list" where
  "elements v = (case v of Some (JArr xs) \<Rightarrow> xs | _ \<Rightarrow> [])"

text \<open>
  \<open>v.key\<close>: reading a property of \<open>null\<close> throws a TypeError (\<open>None\<close> here), a value
  without the property gives \<open>undefined\<close> (\<open>Some None\<close>).
\<close>

definition get_prop :: "json \<Rightarrow> string \<Rightarrow> json option option" where
  "get_prop v key =
     (case v of
        JNull \<Rightarrow> None
      | JObj kvs \<Rightarrow> Some (map_of kvs key)
      | _ \<Rightarrow> Some None)"

text \<open>\<open>Array.prototype.join\<close> on an array of strings.\<close>

fun js_join :: "string \<Rightarrow> string list \<Rightarrow> string" where
  "js_join sep [] = []"
| "js_join sep [x] = x"
| "js_join sep (x # y # ys) = x @ sep @ js_join sep (y # ys)"

text \<open>\<open>Math.round(x * 100) / 100\<close>: \<open>Math.round\<close> rounds a half up.\<close>

definition round2 :: "rat \<Rightarrow> rat" where
  "round2 x = of_int \<lfloor>x * 100 + 1 / 2\<rfloor> / 100"

section \<open>The rule-based score of \<open>POST /predict\<close>\<close>

text \<open>
  \<open>lo <= v && v <= hi\<close> on a converted feature: every comparison with \<open>NaN\<close> is false.
\<close>

definition between :: "rat \<Rightarrow> rat \<Rightarrow> rat option \<Rightarrow> bool" where
  "between lo hi v = (case v of None \<Rightarrow> False | Some x \<Rightarrow> lo \<le> x \<and> x \<le> hi)"

text \<open>
  One \<open>if (cond) { score += w; reasoning.push(text); }\<close> on the two locals.
\<close>

definition apply_rule :: "bool \<Rightarrow> rat \<Rightarrow> string \<Rightarrow> rat \<times> string list \<Rightarrow> rat \<times> string list" where
  "apply_rule cond w txt acc =
     (if cond then (fst acc + w, snd acc @ [txt]) else acc)"

text \<open>
  The array destructuring \<open>const [period, radius, distance, temperature] = ...\<close>: an index
  past the end gives \<open>undefined\<close>, which compares like \<open>NaN\<close>.
\<close>

definition item :: "rat option list \<Rightarrow> nat \<Rightarrow> rat option" where
  "item xs i = (if i < length xs then xs ! i else None)"

text \<open>Line 113: \<open>confidence >= 0.5 ? 'CONFIRMED' : 'FALSE POSITIVE'\<close>.\<close>

definition classify :: "rat \<Rightarrow> string" where
  "classify confidence = (if confidence \<ge> 1 / 2 then ''CONFIRMED'' else ''FALSE POSITIVE'')"

text \<open>
  Lines 103 to 113 and the \<open>reasoning.join(', ')\<close> of the handler: the features of the
  request in, (confidence, prediction, reasoning) out.
\<close>

definition scoring :: "coercions \<Rightarrow> json list \<Rightarrow> rat \<times> string \<times> string" where
  "scoring rt features =
     (let nums = map (Number rt) features;
          period = item nums 0;
          radius = item nums 1;
          distance = item nums 2;
          temperature = item nums 3;
          acc0 = (0, []);
          acc1 = apply_rule (between 200 500 period) (3 / 10) ''Favorable orbital period'' acc0;
          acc2 = apply_rule (between (1 / 2) 2 radius) (3 / 10) ''Earth-like size'' acc1;
          acc3 = apply_rule (between (8 / 10) (15 / 10) distance) (25 / 100) ''In habitable zone'' acc2;
          acc4 = apply_rule (between 273 373 temperature) (15 / 100)
                   ''Temperature allows liquid water'' acc3;
          confidence = min (fst acc4) 1;
          prediction = classify confidence
      in (confidence, prediction, js_join '', '' (snd acc4)))"

section \<open>The statistics record and its file\<close>

text \<open>
  \<open>modelStats\<close>. The counters are only ever incremented: they are natural numbers.
  \<open>total_confidence\<close> is a JSON value, since \<open>+=\<close> with an upstream value that is not a
  number turns it into a string. A history entry is the object literal the handler builds.
\<close>

record StatsRecord =
  model_type :: string
  training_samples :: nat
  features_count :: nat
  last_updated :: string
  total_predictions :: nat
  confirmed_predictions :: nat
  rejected_predictions :: nat
  total_confidence :: json
  prediction_history :: "json list"
  start_time :: string
  api_calls_today :: nat
  last_reset :: string

text \<open>
  The object \<open>JSON.parse\<close> returns for \<open>model_stats.json\<close>: the file is only written by
  \<open>saveStats\<close>, so a field that is present has the type \<open>saveStats\<close> writes, and a field
  may be absent.
\<close>

record Persisted =
  saved_model_type :: "string option"
  saved_training_samples :: "nat option"
  saved_features_count :: "nat option"
  saved_last_updated :: "string option"
  saved_total_predictions :: "nat option"
  saved_confirmed_predictions :: "nat option"
  saved_rejected_predictions :: "nat option"
  saved_total_confidence :: "json option"
  saved_prediction_history :: "json list option"
  saved_start_time :: "string option"
  saved_api_calls_today :: "nat option"
  saved_last_reset :: "string option"

text \<open>
  The process state: the global \<open>modelStats\<close> and the file beside the script (\<open>None\<close>
  when it is missing, unreadable or does not parse: \<open>loadStats\<close> then takes its \<open>catch\<close>).
\<close>

record server =
  modelStats :: StatsRecord
  stats_file :: "Persisted option"

text \<open>
  What a step reads from outside: \<open>new Date().toISOString()\<close>,
  \<open>new Date().toDateString()\<close>, and whether \<open>fs.writeFile\<close> succeeds.
\<close>

record ambient =
  iso_now :: string
  day_now :: string
  write_ok :: bool

text \<open>The object literal of lines 12 to 25, evaluated when the module is loaded.\<close>

definition default_stats :: "ambient \<Rightarrow> StatsRecord" where
  "default_stats amb =
     \<lparr> model_type = ''Random Forest Classifier'',
       training_samples = 9564,
       features_count = 4,
       last_updated = takeWhile (\<lambda>c. c \<noteq> CHR ''T'') (iso_now amb),
       total_predictions = 0,
       confirmed_predictions = 0,
       rejected_predictions = 0,
       total_confidence = JNum 0,
       prediction_history = [],
       start_time = iso_now amb,
       api_calls_today = 0,
       last_reset = day_now amb \<rparr>"

text \<open>\<open>JSON.stringify(modelStats)\<close> read back by \<open>JSON.parse\<close>: every field is present.\<close>

definition stringify_stats :: "StatsRecord \<Rightarrow> Persisted" where
  "stringify_stats m =
     \<lparr> saved_model_type = Some (model_type m),
       saved_training_samples = Some (training_samples m),
       saved_features_count = Some (features_count m),
       saved_last_updated = Some (last_updated m),
       saved_total_predictions = Some (total_predictions m),
       saved_confirmed_predictions = Some (confirmed_predictions m),
       saved_rejected_predictions = Some (rejected_predictions m),
       saved_total_confidence = Some (total_confidence m),
       saved_prediction_history = Some (prediction_history m),
       saved_start_time = Some (start_time m),
       saved_api_calls_today = Some (api_calls_today m),
       saved_last_reset = Some (last_reset m) \<rparr>"

text \<open>The spread \<open>{ ...modelStats, ...saved }\<close>: a field of \<open>saved\<close> wins where present.\<close>

definition spread :: "StatsRecord \<Rightarrow> Persisted \<Rightarrow> StatsRecord" where
  "spread m saved =
     \<lparr> model_type = (case saved_model_type saved of Some v \<Rightarrow> v | None \<Rightarrow> model_type m),
       training_samples =
         (case saved_training_samples saved of Some v \<Rightarrow> v | None \<Rightarrow> training_samples m),
       features_count =
         (case saved_features_count saved of Some v \<Rightarrow> v | None \<Rightarrow> features_count m),
       last_updated =
         (case saved_last_updated saved of Some v \<Rightarrow> v | None \<Rightarrow> last_updated m),
       total_predictions =
         (case saved_total_predictions saved of Some v \<Rightarrow> v | None \<Rightarrow> total_predictions m),
       confirmed_predictions =
         (case saved_confirmed_predictions saved of Some v \<Rightarrow> v
          | None \<Rightarrow> confirmed_predictions m),
       rejected_predictions =
         (case saved_rejected_predictions saved of Some v \<Rightarrow> v
          | None \<Rightarrow> rejected_predictions m),
       total_confidence =
         (case saved_total_confidence saved of Some v \<Rightarrow> v | None \<Rightarrow> total_confidence m),
       prediction_history =
         (case saved_prediction_history saved of Some v \<Rightarrow> v
          | None \<Rightarrow> prediction_history m),
       start_time = (case saved_start_time saved of Some v \<Rightarrow> v | None \<Rightarrow> start_time m),
       api_calls_today =
         (case saved_api_calls_today saved of Some v \<Rightarrow> v | None \<Rightarrow> api_calls_today m),
       last_reset = (case saved_last_reset saved of Some v \<Rightarrow> v | None \<Rightarrow> last_reset m) \<rparr>"

text \<open>
  \<open>loadStats\<close>, lines 30 to 43. A missing or unparsable file leaves \<open>modelStats\<close> as it is.
\<close>

definition loadStats :: "ambient \<Rightarrow> server \<Rightarrow> server" where
  "loadStats amb sv =
     (case stats_file sv of
        None \<Rightarrow> sv
      | Some saved \<Rightarrow>
          (let saved1 =
                 (if saved_last_reset saved \<noteq> Some (day_now amb)
                  then saved\<lparr> saved_api_calls_today := Some 0,
                              saved_last_reset := Some (day_now amb) \<rparr>
                  else saved)
           in sv\<lparr> modelStats := spread (modelStats sv) saved1 \<rparr>))"

text \<open>\<open>saveStats\<close>, lines 45 to 51: a failed write is logged and nothing else happens.\<close>

definition saveStats :: "ambient \<Rightarrow> server \<Rightarrow> server" where
  "saveStats amb sv =
     (if write_ok amb then sv\<lparr> stats_file := Some (stringify_stats (modelStats sv)) \<rparr> else sv)"

text \<open>
  \<open>startServer\<close>: the module's initial \<open>modelStats\<close>, then \<open>loadStats\<close>, over whatever file
  the previous process left.
\<close>

definition startServer :: "ambient \<Rightarrow> Persisted option \<Rightarrow> server" where
  "startServer amb file =
     loadStats amb \<lparr> modelStats = default_stats amb, stats_file = file \<rparr>"

section \<open>Requests and responses\<close>

datatype body = Json json | Text string | Stats StatsRecord

record response =
  res_status :: nat
  res_body :: body

text \<open>
  A query parameter as Express parses it: a string, or an array or nested object (a repeated
  or bracketed parameter), of which the handler only uses that it is truthy and has no
  \<open>substring\<close> method.
\<close>

datatype qparam = QString string | QOther

text \<open>
  What the upstream services do is an input of the step. For the TAP archive: \<open>fetch\<close>
  rejects, or the reply is not \<open>ok\<close> (with its status), or it is \<open>ok\<close> with a text and what
  \<open>JSON.parse\<close> makes of that text (\<open>None\<close> when it throws). For the prediction API: \<open>fetch\<close>
  or \<open>response.json()\<close> rejects (with the error's message), or the reply is not \<open>ok\<close>, or
  it is \<open>ok\<close> and parses to \<open>data\<close>.
\<close>

datatype tap_reply = TapUnreachable | TapNotOk nat | TapOk string "json option"

datatype ai_reply = AiThrows string | AiNotOk nat | AiData json

datatype outbound = TapGet string qparam | AiPost json

text \<open>A handler's result: the state it leaves, the response it sends, the calls it made.\<close>

record outcome =
  after :: server
  sent :: response
  fetched :: "outbound list"

definition error_body :: "string \<Rightarrow> body" where
  "error_body msg = Json (JObj [(''error'', JStr msg)])"

text \<open>A status code inside a template literal.\<close>

fun show_nat :: "nat \<Rightarrow> string" where
  "show_nat n =
     (if n < 10 then [char_of (48 + n)]
      else show_nat (n div 10) @ [char_of (48 + n mod 10)])"

declare show_nat.simps [simp del]

subsection \<open>\<open>GET /tap/sync\<close>, lines 63 to 92\<close>

definition get_tap_sync ::
  "ambient \<Rightarrow> server \<Rightarrow> qparam option \<Rightarrow> qparam option \<Rightarrow> tap_reply \<Rightarrow> outcome" where
  "get_tap_sync amb sv q f reply =
     (let m = modelStats sv;
          sv1 = sv\<lparr> modelStats := m\<lparr> api_calls_today := api_calls_today m + 1 \<rparr> \<rparr>;
          query = (case q of None \<Rightarrow> QString [] | Some (QString s) \<Rightarrow> QString s
                   | Some QOther \<Rightarrow> QOther);
          format = (case f of None \<Rightarrow> QString ''json''
                    | Some (QString s) \<Rightarrow> (if s = [] then QString ''json'' else QString s)
                    | Some QOther \<Rightarrow> QOther);
          failed = \<lparr> res_status = 500, res_body = error_body ''Failed to fetch TAP data'' \<rparr>
      in case query of
           QOther \<Rightarrow> \<lparr> after = sv1, sent = failed, fetched = [] \<rparr>
         | QString s \<Rightarrow>
             if s = [] then
               \<lparr> after = sv1,
                 sent = \<lparr> res_status = 400, res_body = error_body ''Missing query parameter'' \<rparr>,
                 fetched = [] \<rparr>
             else
               (case reply of
                  TapUnreachable \<Rightarrow>
                    \<lparr> after = sv1, sent = failed, fetched = [TapGet s format] \<rparr>
                | TapNotOk code \<Rightarrow>
                    \<lparr> after = sv1, sent = failed, fetched = [TapGet s format] \<rparr>
                | TapOk data parsed \<Rightarrow>
                    \<lparr> after = saveStats amb sv1,
                      sent = \<lparr> res_status = 200,
                               res_body =
                                 (if format = QString ''json''
                                  then (case parsed of Some j \<Rightarrow> Json j | None \<Rightarrow> Text data)
                                  else Text data) \<rparr>,
                      fetched = [TapGet s format] \<rparr>))"

subsection \<open>\<open>POST /predict\<close>, lines 97 to 135\<close>

text \<open>
  \<open>req.body\<close> is what \<open>express.json()\<close> parsed: a JSON value, the empty object when the
  request had no JSON body.
\<close>

text \<open>\<open>xs.slice(-100)\<close> and \<open>xs.slice(0, 100)\<close>.\<close>

definition slice_last :: "nat \<Rightarrow> 'a list \<Rightarrow> 'a list" where
  "slice_last n xs = drop (length xs - n) xs"

definition slice_first :: "nat \<Rightarrow> 'a list \<Rightarrow> 'a list" where
  "slice_first n xs = take n xs"

text \<open>The entry pushed at lines 120 to 124.\<close>

definition predict_entry :: "string \<Rightarrow> json \<Rightarrow> string \<Rightarrow> rat \<Rightarrow> string \<Rightarrow> json" where
  "predict_entry now features prediction confidence reasoning =
     JObj [(''features'', features),
           (''prediction'', JStr prediction),
           (''confidence'', JNum (round2 confidence)),
           (''timestamp'', JStr now),
           (''reasoning'', JStr reasoning)]"

text \<open>Lines 115 to 125: the update of \<open>modelStats\<close> for one scored request.\<close>

definition record_prediction ::
  "coercions \<Rightarrow> string \<Rightarrow> json \<Rightarrow> string \<Rightarrow> rat \<Rightarrow> string \<Rightarrow> StatsRecord \<Rightarrow> StatsRecord" where
  "record_prediction rt now features prediction confidence reasoning m0 =
     (let m1 = (if prediction = ''CONFIRMED''
                then m0\<lparr> confirmed_predictions := confirmed_predictions m0 + 1 \<rparr>
                else m0\<lparr> rejected_predictions := rejected_predictions m0 + 1 \<rparr>);
          m2 = m1\<lparr> total_predictions := total_predictions m1 + 1 \<rparr>;
          m3 = m2\<lparr> total_confidence := js_add rt (total_confidence m2) (JNum confidence) \<rparr>;
          m4 = m3\<lparr> prediction_history :=
                    prediction_history m3 @
                      [predict_entry now features prediction confidence reasoning] \<rparr>
      in if length (prediction_history m4) > 100
         then m4\<lparr> prediction_history := slice_last 100 (prediction_history m4) \<rparr>
         else m4)"

text \<open>
  The guard of line 100, \<open>!features || !Array.isArray(features) || features.length !== 4\<close>.
\<close>

definition bad_features :: "json option \<Rightarrow> bool" where
  "bad_features features =
     (\<not> truthy features \<or> \<not> isArray features \<or> length (elements features) \<noteq> 4)"

definition post_predict :: "coercions \<Rightarrow> ambient \<Rightarrow> server \<Rightarrow> json \<Rightarrow> outcome" where
  "post_predict rt amb sv req_body =
     (case get_prop req_body ''features'' of
        None \<Rightarrow>
          \<lparr> after = sv,
            sent = \<lparr> res_status = 500,
                     res_body = error_body ''Internal server error during prediction'' \<rparr>,
            fetched = [] \<rparr>
      | Some features \<Rightarrow>
          if bad_features features then
            \<lparr> after = sv,
              sent = \<lparr> res_status = 400,
                       res_body = error_body ''Expected array of 4 numerical features.'' \<rparr>,
              fetched = [] \<rparr>
          else
            (case scoring rt (elements features) of
               (confidence, prediction, reasoning) \<Rightarrow>
                 \<lparr> after =
                     saveStats amb
                       (sv\<lparr> modelStats :=
                             record_prediction rt (iso_now amb) (JArr (elements features))
                               prediction confidence reasoning (modelStats sv) \<rparr>),
                   sent = \<lparr> res_status = 200,
                            res_body =
                              Json (JObj [(''prediction'', JStr prediction),
                                          (''confidence'', JNum (round2 confidence)),
                                          (''reasoning'', JStr reasoning)]) \<rparr>,
                   fetched = [] \<rparr>))"

subsection \<open>\<open>POST /ai/predict\<close>, lines 265 to 325\<close>

text \<open>The entry built at lines 301 to 306; \<open>data.confidence || 0\<close> is its last field.\<close>

definition ai_entry :: "string \<Rightarrow> json \<Rightarrow> json \<Rightarrow> json option \<Rightarrow> json" where
  "ai_entry now req_body data conf =
     JObj [(''timestamp'', JStr now),
           (''input'', req_body),
           (''output'', data),
           (''confidence'', js_or conf (JNum 0))]"

text \<open>
  Lines 286 to 311 on \<open>modelStats\<close>. The two counters of lines 286 and 287 are incremented
  before \<open>data.confidence\<close> is read; that read throws when \<open>data\<close> is \<open>null\<close>, and the
  handler's \<open>catch\<close> then answers 500 with the two increments done: the result is the record
  and whether the block ran to its end.
\<close>

definition record_ai ::
  "coercions \<Rightarrow> string \<Rightarrow> json \<Rightarrow> json \<Rightarrow> StatsRecord \<Rightarrow> StatsRecord \<times> bool" where
  "record_ai rt now req_body data m0 =
     (let m1 = m0\<lparr> total_predictions := total_predictions m0 + 1 \<rparr>;
          m2 = m1\<lparr> api_calls_today := api_calls_today m1 + 1 \<rparr>
      in case get_prop data ''confidence'' of
           None \<Rightarrow> (m2, False)
         | Some conf \<Rightarrow>
             (let m3 =
                    (case conf of
                       None \<Rightarrow> m2
                     | Some c \<Rightarrow>
                         (let m = m2\<lparr> total_confidence := js_add rt (total_confidence m2) c \<rparr>
                          in if js_gt rt c (1 / 2)
                             then m\<lparr> confirmed_predictions := confirmed_predictions m + 1 \<rparr>
                             else m\<lparr> rejected_predictions := rejected_predictions m + 1 \<rparr>));
                  m4 = m3\<lparr> prediction_history :=
                            ai_entry now req_body data conf # prediction_history m3 \<rparr>;
                  m5 = (if length (prediction_history m4) > 100
                        then m4\<lparr> prediction_history :=
                                  slice_first 100 (prediction_history m4) \<rparr>
                        else m4)
              in (m5, True)))"

definition ai_failed :: "string \<Rightarrow> response" where
  "ai_failed msg =
     \<lparr> res_status = 500,
       res_body = Json (JObj [(''error'', JStr ''AI prediction failed''),
                              (''details'', JStr msg)]) \<rparr>"

definition post_ai_predict ::
  "coercions \<Rightarrow> ambient \<Rightarrow> server \<Rightarrow> json \<Rightarrow> ai_reply \<Rightarrow> outcome" where
  "post_ai_predict rt amb sv req_body reply =
     (case reply of
        AiThrows msg \<Rightarrow>
          \<lparr> after = sv, sent = ai_failed msg, fetched = [AiPost req_body] \<rparr>
      | AiNotOk code \<Rightarrow>
          \<lparr> after = sv,
            sent = ai_failed (''AI API responded with status: '' @ show_nat code),
            fetched = [AiPost req_body] \<rparr>
      | AiData data \<Rightarrow>
          (case record_ai rt (iso_now amb) req_body data (modelStats sv) of
             (m, finished) \<Rightarrow>
               if finished then
                 \<lparr> after = saveStats amb (sv\<lparr> modelStats := m \<rparr>),
                   sent = \<lparr> res_status = 200, res_body = Json data \<rparr>,
                   fetched = [AiPost req_body] \<rparr>
               else
                 \<lparr> after = sv\<lparr> modelStats := m \<rparr>,
                   sent = ai_failed ''Cannot read properties of null (reading 'confidence')'',
                   fetched = [AiPost req_body] \<rparr>))"

subsection \<open>\<open>GET /api/stats\<close>, lines 140 to 144\<close>

definition get_api_stats :: "ambient \<Rightarrow> server \<Rightarrow> outcome" where
  "get_api_stats amb sv =
     (let m = modelStats sv;
          sv1 = sv\<lparr> modelStats := m\<lparr> api_calls_today := api_calls_today m + 1 \<rparr> \<rparr>
      in \<lparr> after = saveStats amb sv1,
           sent = \<lparr> res_status = 200, res_body = Stats (modelStats sv1) \<rparr>,
           fetched = [] \<rparr>)"

subsection \<open>The two programs as transition systems\<close>

datatype request =
    TapSync "qparam option" "qparam option" tap_reply
  | Predict json
  | AiPredict json ai_reply
  | ApiStats

text \<open>
  The program of lines 1 to 168 routes \<open>POST /predict\<close>, the program of lines 169 to 358
  routes \<open>POST /ai/predict\<close>; the other three routes are the same in both. A \<open>POST\<close> to the
  path a program does not route matches no handler (the catch-all is a \<open>GET\<close>): Express
  answers 404 with a page that says \<open>Cannot POST\<close> and the path, and nothing is touched.
\<close>

datatype program = PredictProgram | AiProgram

definition not_found :: "server \<Rightarrow> string \<Rightarrow> outcome" where
  "not_found sv path =
     \<lparr> after = sv,
       sent = \<lparr> res_status = 404, res_body = Text (''Cannot POST '' @ path) \<rparr>,
       fetched = [] \<rparr>"

definition serve :: "program \<Rightarrow> coercions \<Rightarrow> ambient \<Rightarrow> server \<Rightarrow> request \<Rightarrow> outcome" where
  "serve p rt amb sv r =
     (case r of
        TapSync q f reply \<Rightarrow> get_tap_sync amb sv q f reply
      | Predict req_body \<Rightarrow>
          (case p of
             PredictProgram \<Rightarrow> post_predict rt amb sv req_body
           | AiProgram \<Rightarrow> not_found sv ''/predict'')
      | AiPredict req_body reply \<Rightarrow>
          (case p of
             PredictProgram \<Rightarrow> not_found sv ''/ai/predict''
           | AiProgram \<Rightarrow> post_ai_predict rt amb sv req_body reply)
      | ApiStats \<Rightarrow> get_api_stats amb sv)"

text \<open>
  A process lifetime of one program after \<open>startServer\<close>: the requests in the order in which
  their synchronous blocks run, each with what it reads from outside. Every handler changes
  \<open>modelStats\<close> in one block without an \<open>await\<close> inside, so the record sees the requests one
  after the other; only the moment at which the file is written can fall later than here.
\<close>

fun run_on :: "program \<Rightarrow> coercions \<Rightarrow> server \<Rightarrow> (ambient \<times> request) list \<Rightarrow> server" where
  "run_on p rt sv [] = sv"
| "run_on p rt sv ((amb, r) # evs) = run_on p rt (after (serve p rt amb sv r)) evs"

text \<open>
  The two route tables side by side. No process runs this: it is the common upper bound of
  the two programs, since a step of either program on a request it routes is a step of
  \<open>handle\<close> and a request it does not route leaves the state alone. What holds along every
  sequence of \<open>run\<close> therefore holds along every sequence of either program.
\<close>

definition handle :: "coercions \<Rightarrow> ambient \<Rightarrow> server \<Rightarrow> request \<Rightarrow> outcome" where
  "handle rt amb sv r =
     (case r of
        TapSync q f reply \<Rightarrow> get_tap_sync amb sv q f reply
      | Predict req_body \<Rightarrow> post_predict rt amb sv req_body
      | AiPredict req_body reply \<Rightarrow> post_ai_predict rt amb sv req_body reply
      | ApiStats \<Rightarrow> get_api_stats amb sv)"

fun run :: "coercions \<Rightarrow> server \<Rightarrow> (ambient \<times> request) list \<Rightarrow> server" where
  "run rt sv [] = sv"
| "run rt sv ((amb, r) # evs) = run rt (after (handle rt amb sv r)) evs"

section \<open>The specification's words\<close>

text \<open>
  The scoring table of the specification: for the four numbers of a feature vector, each
  row is (condition satisfied, weight, reasoning text), in the order of the table.
\<close>

definition spec_rules :: "rat \<Rightarrow> rat \<Rightarrow> rat \<Rightarrow> rat \<Rightarrow> (bool \<times> rat \<times> string) list" where
  "spec_rules period radius distance temperature =
     [(200 \<le> period \<and> period \<le> 500, 30 / 100, ''Favorable orbital period''),
      (5 / 10 \<le> radius \<and> radius \<le> 2, 30 / 100, ''Earth-like size''),
      (8 / 10 \<le> distance \<and> distance \<le> 15 / 10, 25 / 100, ''In habitable zone''),
      (273 \<le> temperature \<and> temperature \<le> 373, 15 / 100,
         ''Temperature allows liquid water'')]"

definition spec_confidence :: "rat \<Rightarrow> rat \<Rightarrow> rat \<Rightarrow> rat \<Rightarrow> rat" where
  "spec_confidence period radius distance temperature =
     min 1 (sum_list (map (\<lambda>row. fst (snd row))
                        (filter fst (spec_rules period radius distance temperature))))"

definition spec_verdict :: "rat \<Rightarrow> string" where
  "spec_verdict confidence =
     (if 5 / 10 \<le> confidence then ''CONFIRMED'' else ''FALSE POSITIVE'')"

definition spec_reasoning :: "rat \<Rightarrow> rat \<Rightarrow> rat \<Rightarrow> rat \<Rightarrow> string" where
  "spec_reasoning period radius distance temperature =
     (case map (\<lambda>row. snd (snd row))
             (filter fst (spec_rules period radius distance temperature)) of
        [] \<Rightarrow> []
      | x # xs \<Rightarrow> foldl (\<lambda>joined y. joined @ '', '' @ y) x xs)"



text \<open>The history entry a request records, if it records one.\<close>

definition new_entry :: "coercions \<Rightarrow> ambient \<Rightarrow> request \<Rightarrow> json option" where
  "new_entry rt amb r =
     (case r of
        Predict req_body \<Rightarrow>
          (case get_prop req_body ''features'' of
             None \<Rightarrow> None
           | Some features \<Rightarrow>
               if bad_features features then None
               else (case scoring rt (elements features) of
                       (confidence, prediction, reasoning) \<Rightarrow>
                         Some (predict_entry (iso_now amb) (JArr (elements features))
                                 prediction confidence reasoning)))
      | AiPredict req_body (AiData data) \<Rightarrow>
          (case get_prop data ''confidence'' of
             None \<Rightarrow> None
           | Some conf \<Rightarrow> Some (ai_entry (iso_now amb) req_body data conf))
      | _ \<Rightarrow> None)"

definition entries :: "coercions \<Rightarrow> (ambient \<times> request) list \<Rightarrow> json list" where
  "entries rt evs = concat (map (\<lambda>ev. case new_entry rt (fst ev) (snd ev) of
                                         None \<Rightarrow> [] | Some e \<Rightarrow> [e]) evs)"

definition is_predict :: "request \<Rightarrow> bool" where
  "is_predict r = (case r of Predict req_body \<Rightarrow> True | _ \<Rightarrow> False)"

definition is_ai_predict :: "request \<Rightarrow> bool" where
  "is_ai_predict r = (case r of AiPredict req_body reply \<Rightarrow> True | _ \<Rightarrow> False)"

text \<open>
  The requests a program routes, and the entries it records along a sequence of requests,
  oldest first.
\<close>

definition routes :: "program \<Rightarrow> request \<Rightarrow> bool" where
  "routes p r =
     (case r of
        Predict req_body \<Rightarrow> p = PredictProgram
      | AiPredict req_body reply \<Rightarrow> p = AiProgram
      | _ \<Rightarrow> True)"

definition recorded :: "program \<Rightarrow> coercions \<Rightarrow> (ambient \<times> request) list \<Rightarrow> json list" where
  "recorded p rt evs = entries rt (filter (\<lambda>ev. routes p (snd ev)) evs)"

section \<open>Sample inputs\<close>

text \<open>
  A runtime whose conversions of strings and objects give \<open>NaN\<close> and whose concatenation
  gives the empty string, two days, and some requests.
\<close>

definition rt0 :: coercions where
  "rt0 = \<lparr> coerce_number = (\<lambda>v. None), string_concat = (\<lambda>a b. []) \<rparr>"

definition sunday :: ambient where
  "sunday = \<lparr> iso_now = ''2026-11-01T21:30:00.000Z'', day_now = ''Sun Nov 01 2026'',
              write_ok = True \<rparr>"

definition monday :: ambient where
  "monday = \<lparr> iso_now = ''2026-11-02T08:15:00.000Z'', day_now = ''Mon Nov 02 2026'',
              write_ok = True \<rparr>"

definition fresh :: "ambient \<Rightarrow> server" where
  "fresh amb = startServer amb None"

definition earthlike :: json where
  "earthlike = JObj [(''features'', JArr [JNum 300, JNum 1, JNum 1, JNum 300])]"

definition hot_giant :: json where
  "hot_giant = JObj [(''features'', JArr [JNum 1000, JNum 5, JNum 10, JNum 1000])]"

definition three_features :: json where
  "three_features = JObj [(''features'', JArr [JNum 300, JNum 1, JNum 1])]"

text \<open>
  A process started on Sunday that answers \<open>GET /api/stats\<close> after midnight, and one
  started on Monday that does the same.
\<close>

definition stale :: server where
  "stale = after (get_api_stats monday (fresh sunday))"

definition busy :: server where
  "busy = after (get_api_stats monday (fresh monday))"

text \<open>Upstream replies with a confidence of exactly one half, and with none.\<close>

definition tie_reply :: json where
  "tie_reply = JObj [(''prediction'', JStr ''candidate''), (''confidence'', JNum (1 / 2))]"

definition no_confidence_reply :: json where
  "no_confidence_reply = JObj [(''prediction'', JStr ''candidate'')]"

text \<open>
  Requests with what they read from outside, the entries they record, and for each program
  101 recordings with a \<open>GET\<close> and a \<open>POST\<close> to the other program's path among them.
\<close>

definition first_request :: "ambient \<times> request" where
  "first_request = (sunday, Predict hot_giant)"

definition later_request :: "ambient \<times> request" where
  "later_request = (monday, Predict earthlike)"

definition ai_request :: "ambient \<times> request" where
  "ai_request = (monday, AiPredict earthlike (AiData tie_reply))"

definition silent_request :: "ambient \<times> request" where
  "silent_request = (monday, AiPredict earthlike (AiData no_confidence_reply))"

definition predict_traffic :: "(ambient \<times> request) list" where
  "predict_traffic =
     first_request # (monday, ApiStats) # ai_request # replicate 100 later_request"

definition ai_traffic :: "(ambient \<times> request) list" where
  "ai_traffic = silent_request # (monday, ApiStats) # later_request # replicate 100 ai_request"

definition first_entry :: json where
  "first_entry =
     predict_entry ''2026-11-01T21:30:00.000Z'' (JArr [JNum 1000, JNum 5, JNum 10, JNum 1000])
       ''FALSE POSITIVE'' 0 []"

definition later_entry :: json where
  "later_entry =
     predict_entry ''2026-11-02T08:15:00.000Z'' (JArr [JNum 300, JNum 1, JNum 1, JNum 300])
       ''CONFIRMED'' 1
       ''Favorable orbital period, Earth-like size, In habitable zone, Temperature allows liquid water''"

definition tie_entry :: json where
  "tie_entry = ai_entry ''2026-11-02T08:15:00.000Z'' earthlike tie_reply (Some (JNum (1 / 2)))"

definition silent_entry :: json where
  "silent_entry = ai_entry ''2026-11-02T08:15:00.000Z'' earthlike no_confidence_reply None"

section \<open>The score against the table\<close>

lemmas value_defs = Number_def primitive_number_def item_def between_def

lemma apply_rule_eq:
  "apply_rule c w txt acc = (fst acc + (if c then w else 0), snd acc @ (if c then [txt] else []))"
  by (simp add: apply_rule_def)

lemma foldl_join_prefix:
  "foldl (\<lambda>joined y. joined @ sep @ y) (a @ b) ys =
     a @ foldl (\<lambda>joined y. joined @ sep @ y) b ys"
  by (induction ys arbitrary: b) simp_all

lemma js_join_foldl:
  "js_join sep xs =
     (case xs of [] \<Rightarrow> [] | x # ys \<Rightarrow> foldl (\<lambda>joined y. joined @ sep @ y) x ys)"
proof (induction sep xs rule: js_join.induct)
  case (3 sep x y ys)
  then show ?case by (simp add: foldl_join_prefix)
qed simp_all

lemma satisfied_rows:
  "filter fst ((c, w, txt) # rows) = (if c then [(c, w, txt)] else []) @ filter fst rows"
  by simp

lemma scoring_confidence:
  "fst (scoring rt [JNum p, JNum r, JNum d, JNum t]) = spec_confidence p r d t"
  by (simp add: scoring_def value_defs apply_rule_eq spec_confidence_def spec_rules_def Let_def
      min.commute)

lemma classify_spec_verdict: "classify c = spec_verdict c"
  by (simp add: classify_def spec_verdict_def)

lemma scoring_verdict: "fst (snd (scoring rt fs)) = spec_verdict (fst (scoring rt fs))"
  by (simp add: scoring_def classify_spec_verdict Let_def)

lemma scoring_reasoning:
  "snd (snd (scoring rt [JNum p, JNum r, JNum d, JNum t])) = spec_reasoning p r d t"
  unfolding spec_reasoning_def spec_rules_def satisfied_rows js_join_foldl [symmetric]
  by (simp add: scoring_def value_defs apply_rule_eq Let_def if_distrib [of "map f" for f])

lemma scoring_numeric:
  "scoring rt [JNum p, JNum r, JNum d, JNum t] =
     (spec_confidence p r d t, spec_verdict (spec_confidence p r d t), spec_reasoning p r d t)"
  using scoring_confidence [of rt p r d t]
    scoring_verdict [of rt "[JNum p, JNum r, JNum d, JNum t]"]
    scoring_reasoning [of rt p r d t]
  by (metis prod.collapse)

text \<open>
  Every confidence the rules can produce is a whole number of hundredths, so the rounding of
  the response and of the history entry leaves it as it is.
\<close>

lemma round2_hundredths: "round2 (of_int k / 100) = of_int k / 100"
proof -
  have "\<lfloor>(of_int k :: rat) + 1 / 2\<rfloor> = k" by linarith
  then show ?thesis by (simp add: round2_def)
qed

lemma scoring_values:
  "fst (scoring rt fs) \<in>
     (\<lambda>k. of_int k / 100) ` {0, 15, 25, 40, 30, 45, 55, 70, 60, 75, 85, 100}"
  by (simp add: scoring_def apply_rule_eq Let_def)

lemma scoring_hundredths: "\<exists>k. fst (scoring rt fs) = of_int k / 100"
  using scoring_values [of rt fs] by blast

text \<open>
  No subset of the four weights adds up to one half: on \<open>POST /predict\<close> the comparison
  \<open>confidence >= 0.5\<close> never meets its boundary.
\<close>

lemma score_never_half: "fst (scoring rt fs) \<noteq> 1 / 2"
  using scoring_values [of rt fs] by auto

lemma score_in_unit_interval: "0 \<le> fst (scoring rt fs) \<and> fst (scoring rt fs) \<le> 1"
  by (simp add: scoring_def apply_rule_eq Let_def)

lemma round2_scoring: "round2 (fst (scoring rt fs)) = fst (scoring rt fs)"
  using scoring_hundredths [of rt fs] round2_hundredths by metis

section \<open>\<open>POST /predict\<close> on a well-formed body\<close>

lemma bad_features_array: "bad_features (Some (JArr fs)) = (length fs \<noteq> 4)"
  by (simp add: bad_features_def truthy_def isArray_def elements_def)

lemma post_predict_valid:
  assumes "get_prop req_body ''features'' = Some (Some (JArr fs))" and "length fs = 4"
  shows "post_predict rt amb sv req_body =
           \<lparr> after =
               saveStats amb
                 (sv\<lparr> modelStats :=
                       record_prediction rt (iso_now amb) (JArr fs)
                         (fst (snd (scoring rt fs))) (fst (scoring rt fs))
                         (snd (snd (scoring rt fs))) (modelStats sv) \<rparr>),
             sent = \<lparr> res_status = 200,
                      res_body =
                        Json (JObj [(''prediction'', JStr (fst (snd (scoring rt fs)))),
                                    (''confidence'', JNum (fst (scoring rt fs))),
                                    (''reasoning'', JStr (snd (snd (scoring rt fs))))]) \<rparr>,
             fetched = [] \<rparr>"
  using assms
  by (simp add: post_predict_def bad_features_array elements_def round2_scoring
      split: prod.splits)
     (metis fst_conv snd_conv round2_scoring)

text \<open>
  C2. For four numeric features \<open>[period, radius, distance, temperature]\<close> the handler's
  score is the table's: the confidence is the sum of the weights of the satisfied inclusive
  range checks (0.30, 0.30, 0.25, 0.15), capped at 1; the verdict is \<open>CONFIRMED\<close> exactly
  when the confidence is at least 0.5 and \<open>FALSE POSITIVE\<close> otherwise; the reasoning is the
  satisfied rows' texts joined by a comma and a space in the table's order, empty when no
  row is satisfied. The response of \<open>POST /predict\<close> carries these three values. (Numbers
  are exact here. In doubles the four weights add up to within one unit in the last place of
  the decimal sum, no sum is near 0.5, and the confidence of the response, rounded to two
  decimals, is the double nearest to the value proved here.)
\<close>

theorem scoring_follows_table:
  assumes "get_prop req_body ''features'' =
             Some (Some (JArr [JNum period, JNum radius, JNum distance, JNum temperature]))"
  shows "scoring rt [JNum period, JNum radius, JNum distance, JNum temperature] =
           (spec_confidence period radius distance temperature,
            spec_verdict (spec_confidence period radius distance temperature),
            spec_reasoning period radius distance temperature)
         \<and> sent (post_predict rt amb sv req_body) =
             \<lparr> res_status = 200,
               res_body =
                 Json (JObj
                   [(''prediction'',
                       JStr (spec_verdict (spec_confidence period radius distance temperature))),
                    (''confidence'', JNum (spec_confidence period radius distance temperature)),
                    (''reasoning'',
                       JStr (spec_reasoning period radius distance temperature))]) \<rparr>"
  using post_predict_valid [OF assms, of rt amb sv]
  by (simp add: scoring_numeric)

theorem scoring_follows_table_witness:
  "scoring rt0 [JNum 300, JNum 1, JNum 1, JNum 300] =
     (1, ''CONFIRMED'',
      ''Favorable orbital period, Earth-like size, In habitable zone, Temperature allows liquid water'')
   \<and> sent (post_predict rt0 monday (fresh monday) earthlike) =
       \<lparr> res_status = 200,
         res_body =
           Json (JObj
             [(''prediction'', JStr ''CONFIRMED''),
              (''confidence'', JNum 1),
              (''reasoning'',
                 JStr ''Favorable orbital period, Earth-like size, In habitable zone, Temperature allows liquid water'')]) \<rparr>
   \<and> scoring rt0 [JNum 1000, JNum 5, JNum 10, JNum 1000] = (0, ''FALSE POSITIVE'', [])"
  using scoring_follows_table [of earthlike 300 1 1 300 rt0 monday "fresh monday"]
    scoring_follows_table [of hot_giant 1000 5 10 1000 rt0 monday "fresh monday"]
  by (simp add: earthlike_def hot_giant_def get_prop_def spec_confidence_def spec_rules_def
      spec_verdict_def spec_reasoning_def)

section \<open>Client errors\<close>

lemma modelStats_saveStats [simp]: "modelStats (saveStats amb sv) = modelStats sv"
  by (simp add: saveStats_def)

text \<open>
  C3, as the code has it. A \<open>GET /tap/sync\<close> without a query (absent or empty) is answered
  400 with the message \<open>Missing query parameter\<close> and the TAP service is not contacted; a
  \<open>POST /predict\<close> whose \<open>features\<close> is absent, not an array or not of length 4 is answered
  400 with \<open>Expected array of 4 numerical features.\<close> and leaves the record and the file as
  they were. The TAP handler counts the call before it looks at the query: its
  \<open>api_calls_today\<close> is one more than before, and nothing else of the state changes.
\<close>

theorem client_errors:
  assumes "q = None \<or> q = Some (QString [])"
    and "get_prop req_body ''features'' = Some features"
    and "features = None \<or> \<not> isArray features \<or> length (elements features) \<noteq> 4"
  shows "sent (get_tap_sync amb sv q f reply) =
           \<lparr> res_status = 400, res_body = error_body ''Missing query parameter'' \<rparr>
         \<and> fetched (get_tap_sync amb sv q f reply) = []
         \<and> after (get_tap_sync amb sv q f reply) =
             sv\<lparr> modelStats :=
                  (modelStats sv)\<lparr> api_calls_today := api_calls_today (modelStats sv) + 1 \<rparr> \<rparr>
         \<and> sent (post_predict rt amb sv req_body) =
             \<lparr> res_status = 400,
               res_body = error_body ''Expected array of 4 numerical features.'' \<rparr>
         \<and> fetched (post_predict rt amb sv req_body) = []
         \<and> after (post_predict rt amb sv req_body) = sv"
proof -
  have tap: "get_tap_sync amb sv q f reply =
           \<lparr> after = sv\<lparr> modelStats :=
                  (modelStats sv)\<lparr> api_calls_today := api_calls_today (modelStats sv) + 1 \<rparr> \<rparr>,
             sent = \<lparr> res_status = 400, res_body = error_body ''Missing query parameter'' \<rparr>,
             fetched = [] \<rparr>"
    using assms(1) by (auto simp: get_tap_sync_def Let_def)
  have "bad_features features"
    using assms(3) by (auto simp: bad_features_def truthy_def)
  then have pre: "post_predict rt amb sv req_body =
           \<lparr> after = sv,
             sent = \<lparr> res_status = 400,
               res_body = error_body ''Expected array of 4 numerical features.'' \<rparr>,
             fetched = [] \<rparr>"
    using assms(2) by (simp add: post_predict_def)
  show ?thesis by (simp add: tap pre)
qed

theorem client_errors_witness:
  "sent (get_tap_sync monday (fresh monday) None None TapUnreachable) =
     \<lparr> res_status = 400, res_body = error_body ''Missing query parameter'' \<rparr>
   \<and> fetched (get_tap_sync monday (fresh monday) None None TapUnreachable) = []
   \<and> api_calls_today (modelStats (after (get_tap_sync monday (fresh monday) None None TapUnreachable))) = 1
   \<and> sent (post_predict rt0 monday (fresh monday) three_features) =
       \<lparr> res_status = 400, res_body = error_body ''Expected array of 4 numerical features.'' \<rparr>
   \<and> after (post_predict rt0 monday (fresh monday) three_features) = fresh monday"
  using client_errors [of None three_features "Some (JArr [JNum 300, JNum 1, JNum 1])"
      monday "fresh monday" None TapUnreachable rt0]
  by (simp add: three_features_def get_prop_def elements_def fresh_def startServer_def
      loadStats_def default_stats_def)

text \<open>
  That a client error changes nothing of the record fails on the TAP path: the request
  without a query is answered 400 and \<open>api_calls_today\<close> has gone from 0 to 1.
\<close>

theorem tap_missing_query_counts_the_call:
  "res_status (sent (get_tap_sync monday (fresh monday) None None TapUnreachable)) = 400
   \<and> api_calls_today (modelStats (fresh monday)) = 0
   \<and> api_calls_today
       (modelStats (after (get_tap_sync monday (fresh monday) None None TapUnreachable))) = 1"
  by (simp add: get_tap_sync_def fresh_def startServer_def loadStats_def default_stats_def)

section \<open>\<open>GET /api/stats\<close>\<close>

text \<open>
  C7. \<open>GET /api/stats\<close> adds exactly one to \<open>api_calls_today\<close> and leaves every other field
  of the record as it was; the body it sends is the record after the increment.
\<close>

theorem api_stats_frame:
  "modelStats (after (get_api_stats amb sv)) =
     (modelStats sv)\<lparr> api_calls_today := api_calls_today (modelStats sv) + 1 \<rparr>
   \<and> sent (get_api_stats amb sv) =
       \<lparr> res_status = 200, res_body = Stats (modelStats (after (get_api_stats amb sv))) \<rparr>"
  by (simp add: get_api_stats_def Let_def)

theorem api_stats_frame_witness:
  "modelStats (after (get_api_stats monday (fresh sunday))) =
     (default_stats sunday)\<lparr> api_calls_today := 1 \<rparr>
   \<and> sent (get_api_stats monday (fresh sunday)) =
       \<lparr> res_status = 200, res_body = Stats ((default_stats sunday)\<lparr> api_calls_today := 1 \<rparr>) \<rparr>"
  using api_stats_frame [of monday "fresh sunday"]
  by (simp add: fresh_def startServer_def loadStats_def default_stats_def)

section \<open>The score does not depend on the state\<close>

text \<open>
  C9. For a body with four features, the response of \<open>POST /predict\<close> is the same whatever
  the record, the file, the clock and the disk are, and so the same when the request is
  repeated on the state the first call left; its three fields are the triple of \<open>scoring\<close>,
  a function of the runtime's conversions and the features alone. The handler calls no
  upstream service, and the state it leaves is the recording step of lines 115 to 125
  applied to that triple, then saved: the score itself writes nothing.
\<close>

theorem scoring_ignores_state:
  assumes "get_prop req_body ''features'' = Some (Some (JArr fs))" and "length fs = 4"
  shows "sent (post_predict rt amb sv req_body) = sent (post_predict rt amb' sv' req_body)
     \<and> sent (post_predict rt amb' (after (post_predict rt amb sv req_body)) req_body) =
         sent (post_predict rt amb sv req_body)
     \<and> res_body (sent (post_predict rt amb sv req_body)) =
         Json (JObj [(''prediction'', JStr (fst (snd (scoring rt fs)))),
                     (''confidence'', JNum (fst (scoring rt fs))),
                     (''reasoning'', JStr (snd (snd (scoring rt fs))))])
     \<and> after (post_predict rt amb sv req_body) =
         saveStats amb
           (sv\<lparr> modelStats :=
                 record_prediction rt (iso_now amb) (JArr fs)
                   (fst (snd (scoring rt fs))) (fst (scoring rt fs))
                   (snd (snd (scoring rt fs))) (modelStats sv) \<rparr>)
     \<and> fetched (post_predict rt amb sv req_body) = []"
  by (simp add: post_predict_valid [OF assms])

theorem scoring_ignores_state_witness:
  "sent (post_predict rt0 monday (fresh monday) earthlike) =
     sent (post_predict rt0 sunday stale earthlike)
   \<and> sent (post_predict rt0 sunday (after (post_predict rt0 monday (fresh monday) earthlike))
             earthlike) =
       sent (post_predict rt0 monday (fresh monday) earthlike)
   \<and> res_body (sent (post_predict rt0 monday (fresh monday) earthlike)) =
       Json (JObj [(''prediction'', JStr ''CONFIRMED''),
                   (''confidence'', JNum 1),
                   (''reasoning'',
                      JStr ''Favorable orbital period, Earth-like size, In habitable zone, Temperature allows liquid water'')])
   \<and> fetched (post_predict rt0 monday (fresh monday) earthlike) = []"
proof -
  have features:
    "get_prop earthlike ''features'' = Some (Some (JArr [JNum 300, JNum 1, JNum 1, JNum 300]))"
    by (simp add: earthlike_def get_prop_def)
  have four: "length [JNum 300, JNum 1, JNum 1, JNum 300] = 4"
    by simp
  have score: "scoring rt0 [JNum 300, JNum 1, JNum 1, JNum 300] =
      (1, ''CONFIRMED'',
       ''Favorable orbital period, Earth-like size, In habitable zone, Temperature allows liquid water'')"
    by (simp add: scoring_numeric spec_confidence_def spec_rules_def spec_verdict_def
        spec_reasoning_def)
  note scoring_ignores_state
    [OF features four, of rt0 monday "fresh monday" sunday stale, unfolded score fst_conv snd_conv]
  then show ?thesis by blast
qed

section \<open>The tie at one half\<close>

text \<open>
  C10. On \<open>POST /ai/predict\<close> an upstream confidence of exactly 0.5 increments
  \<open>rejected_predictions\<close> and not \<open>confirmed_predictions\<close> (the test is \<open>> 0.5\<close>); on
  \<open>POST /predict\<close> a confidence of exactly 0.5 is classified \<open>CONFIRMED\<close> (the test is
  \<open>>= 0.5\<close>) and the recording step then increments \<open>confirmed_predictions\<close> and not
  \<open>rejected_predictions\<close>. (The rules of \<open>POST /predict\<close> themselves never produce
  exactly 0.5: \<open>score_never_half\<close>.)
\<close>

theorem tie_at_half:
  assumes "get_prop data ''confidence'' = Some (Some (JNum (1 / 2)))"
  shows "classify (1 / 2) = ''CONFIRMED''
         \<and> confirmed_predictions
             (record_prediction rt now features (classify (1 / 2)) (1 / 2) reasoning m) =
             confirmed_predictions m + 1
         \<and> rejected_predictions
             (record_prediction rt now features (classify (1 / 2)) (1 / 2) reasoning m) =
             rejected_predictions m
         \<and> rejected_predictions (fst (record_ai rt now req_body data m)) =
             rejected_predictions m + 1
         \<and> confirmed_predictions (fst (record_ai rt now req_body data m)) =
             confirmed_predictions m"
  using assms
  by (simp add: classify_def record_prediction_def record_ai_def js_gt_def Number_def
      primitive_number_def Let_def)

theorem tie_at_half_witness:
  "classify (1 / 2) = ''CONFIRMED''
   \<and> rejected_predictions
       (fst (record_ai rt0 (iso_now monday) earthlike tie_reply (default_stats monday))) = 1
   \<and> confirmed_predictions
       (fst (record_ai rt0 (iso_now monday) earthlike tie_reply (default_stats monday))) = 0"
  using tie_at_half [of tie_reply rt0 "iso_now monday" earthlike "[]" "default_stats monday" earthlike]
  by (simp add: tie_reply_def get_prop_def default_stats_def)

section \<open>Loading and saving\<close>

text \<open>
  C6. When the file holds a record whose \<open>last_reset\<close> is not today's day string,
  \<open>loadStats\<close> leaves \<open>api_calls_today\<close> at 0 and \<open>last_reset\<close> at today's day string; when
  it is today's, both fields are the file's.
\<close>

theorem load_rollover:
  assumes "stats_file sv = Some saved"
    and "saved_last_reset saved = Some d"
    and "saved_api_calls_today saved = Some n"
  shows "api_calls_today (modelStats (loadStats amb sv)) = (if d \<noteq> day_now amb then 0 else n)
         \<and> last_reset (modelStats (loadStats amb sv)) =
             (if d \<noteq> day_now amb then day_now amb else d)"
  using assms by (simp add: loadStats_def spread_def Let_def)

theorem load_rollover_witness:
  "api_calls_today (modelStats (startServer monday (stats_file stale))) = 0
   \<and> last_reset (modelStats (startServer monday (stats_file stale))) = ''Mon Nov 02 2026''
   \<and> api_calls_today (modelStats (startServer monday (stats_file busy))) = 1
   \<and> last_reset (modelStats (startServer monday (stats_file busy))) = ''Mon Nov 02 2026''"
  using load_rollover [of "\<lparr> modelStats = default_stats monday, stats_file = stats_file stale \<rparr>"
      "the (stats_file stale)" "''Sun Nov 01 2026''" 1 monday]
    load_rollover [of "\<lparr> modelStats = default_stats monday, stats_file = stats_file busy \<rparr>"
      "the (stats_file busy)" "''Mon Nov 02 2026''" 1 monday]
  by (simp add: stale_def busy_def startServer_def get_api_stats_def saveStats_def
      stringify_stats_def fresh_def loadStats_def default_stats_def monday_def sunday_def)

lemma spread_stringify: "spread d (stringify_stats m) = m"
  by (simp add: spread_def stringify_stats_def)

text \<open>
  C5, as the code has it. A record whose \<open>last_reset\<close> is the day string of the day on which
  it is loaded comes back from \<open>saveStats\<close> (when the write succeeds) followed by
  \<open>startServer\<close> identical, field for field.
\<close>

theorem save_load_round_trip:
  assumes "write_ok amb1" and "last_reset (modelStats sv) = day_now amb2"
  shows "modelStats (startServer amb2 (stats_file (saveStats amb1 sv))) = modelStats sv"
proof -
  have "stats_file (saveStats amb1 sv) = Some (stringify_stats (modelStats sv))"
    using assms(1) by (simp add: saveStats_def)
  moreover have "saved_last_reset (stringify_stats (modelStats sv)) = Some (day_now amb2)"
    using assms(2) by (simp add: stringify_stats_def)
  ultimately show ?thesis
    by (simp add: startServer_def loadStats_def spread_stringify)
qed

theorem save_load_round_trip_witness:
  "modelStats (startServer monday (stats_file (saveStats monday busy))) = modelStats busy
   \<and> api_calls_today (modelStats busy) = 1"
  using save_load_round_trip [of monday busy monday]
  by (simp add: busy_def get_api_stats_def fresh_def startServer_def loadStats_def
      default_stats_def monday_def)

text \<open>
  Stated for every record, the round trip fails: the process started on Sunday is still
  running on Monday, with \<open>last_reset\<close> still Sunday's. Saved on Monday and loaded on
  Monday, its \<open>api_calls_today\<close> comes back as 0 and its \<open>last_reset\<close> as Monday's.
\<close>

theorem stale_day_is_reset_on_reload:
  "api_calls_today (modelStats stale) = 1
   \<and> last_reset (modelStats stale) = ''Sun Nov 01 2026''
   \<and> api_calls_today (modelStats (startServer monday (stats_file (saveStats monday stale)))) = 0
   \<and> last_reset (modelStats (startServer monday (stats_file (saveStats monday stale)))) =
       ''Mon Nov 02 2026''"
  by (simp add: stale_def get_api_stats_def fresh_def startServer_def loadStats_def
      default_stats_def saveStats_def stringify_stats_def spread_def monday_def sunday_def)

section \<open>One request\<close>

lemma slice_last_short: "length xs \<le> n \<Longrightarrow> slice_last n xs = xs"
  by (simp add: slice_last_def)

lemma slice_first_short: "length xs \<le> n \<Longrightarrow> slice_first n xs = xs"
  by (simp add: slice_first_def)

lemma record_prediction_fields:
  "total_predictions (record_prediction rt now fs p c rs m) = total_predictions m + 1"
  "confirmed_predictions (record_prediction rt now fs p c rs m) +
     rejected_predictions (record_prediction rt now fs p c rs m) =
     confirmed_predictions m + rejected_predictions m + 1"
  "api_calls_today (record_prediction rt now fs p c rs m) = api_calls_today m"
  "last_reset (record_prediction rt now fs p c rs m) = last_reset m"
  "prediction_history (record_prediction rt now fs p c rs m) =
     slice_last 100 (prediction_history m @ [predict_entry now fs p c rs])"
  by (simp_all add: record_prediction_def Let_def slice_last_short)

lemma record_ai_null:
  "get_prop data ''confidence'' = None \<Longrightarrow>
     record_ai rt now b data m =
       (m\<lparr> total_predictions := total_predictions m + 1,
           api_calls_today := api_calls_today m + 1 \<rparr>, False)"
  by (simp add: record_ai_def Let_def)

lemma record_ai_fields:
  assumes "get_prop data ''confidence'' = Some conf"
  shows "snd (record_ai rt now b data m)"
    and "total_predictions (fst (record_ai rt now b data m)) = total_predictions m + 1"
    and "confirmed_predictions (fst (record_ai rt now b data m)) +
           rejected_predictions (fst (record_ai rt now b data m)) =
           confirmed_predictions m + rejected_predictions m + (if conf = None then 0 else 1)"
    and "api_calls_today (fst (record_ai rt now b data m)) = api_calls_today m + 1"
    and "last_reset (fst (record_ai rt now b data m)) = last_reset m"
    and "prediction_history (fst (record_ai rt now b data m)) =
           slice_first 100 (ai_entry now b data conf # prediction_history m)"
  using assms
  by (simp_all add: record_ai_def Let_def slice_first_short split: option.splits)

text \<open>
  The failing paths of \<open>POST /ai/predict\<close>: when the upstream call fails or is not \<open>ok\<close>
  nothing has been written yet; when it answers \<open>null\<close> the two counters of lines 286 and
  287 have been incremented before the TypeError is caught.
\<close>

lemma ai_upstream_failure:
  "after (post_ai_predict rt amb sv req_body (AiThrows msg)) = sv"
  "after (post_ai_predict rt amb sv req_body (AiNotOk code)) = sv"
  "res_status (sent (post_ai_predict rt amb sv req_body (AiThrows msg))) = 500"
  "res_status (sent (post_ai_predict rt amb sv req_body (AiNotOk code))) = 500"
  by (simp_all add: post_ai_predict_def ai_failed_def)

lemma ai_null_reply:
  "post_ai_predict rt amb sv req_body (AiData JNull) =
     \<lparr> after =
         sv\<lparr> modelStats :=
              (modelStats sv)\<lparr> total_predictions := total_predictions (modelStats sv) + 1,
                                api_calls_today := api_calls_today (modelStats sv) + 1 \<rparr> \<rparr>,
       sent = ai_failed ''Cannot read properties of null (reading 'confidence')'',
       fetched = [AiPost req_body] \<rparr>"
  by (simp add: post_ai_predict_def record_ai_null get_prop_def)

section \<open>Steps of the server\<close>



lemma step_api_calls:
  "api_calls_today (modelStats sv) \<le> api_calls_today (modelStats (after (handle rt amb sv r)))"
  "last_reset (modelStats (after (handle rt amb sv r))) = last_reset (modelStats sv)"
proof -
  have "api_calls_today (modelStats sv) \<le> api_calls_today (modelStats (after (handle rt amb sv r)))
        \<and> last_reset (modelStats (after (handle rt amb sv r))) = last_reset (modelStats sv)"
  proof (cases r)
    case (TapSync q f reply)
    then show ?thesis
      by (simp add: handle_def get_tap_sync_def Let_def split: qparam.splits tap_reply.splits)
  next
    case (Predict b)
    then show ?thesis
      by (simp add: handle_def post_predict_def record_prediction_fields
          split: option.splits prod.splits)
  next
    case (AiPredict b reply)
    show ?thesis
    proof (cases reply)
      case (AiData data)
      show ?thesis
      proof (cases "get_prop data ''confidence''")
        case None
        with AiPredict AiData show ?thesis
          by (simp add: handle_def post_ai_predict_def record_ai_null)
      next
        case (Some conf)
        with AiPredict AiData
          record_ai_fields(1,4,5) [OF Some, of rt "iso_now amb" b "modelStats sv"]
        show ?thesis
          by (simp add: handle_def post_ai_predict_def case_prod_beta)
      qed
    qed (simp_all add: AiPredict handle_def post_ai_predict_def)
  next
    case ApiStats
    then show ?thesis by (simp add: handle_def get_api_stats_def Let_def)
  qed
  then show
    "api_calls_today (modelStats sv) \<le> api_calls_today (modelStats (after (handle rt amb sv r)))"
    "last_reset (modelStats (after (handle rt amb sv r))) = last_reset (modelStats sv)"
    by simp_all
qed

lemma step_history:
  "prediction_history (modelStats (after (handle rt amb sv r))) =
     (case new_entry rt amb r of
        None \<Rightarrow> prediction_history (modelStats sv)
      | Some e \<Rightarrow>
          if is_predict r then slice_last 100 (prediction_history (modelStats sv) @ [e])
          else slice_first 100 (e # prediction_history (modelStats sv)))"
proof (cases r)
  case (TapSync q f reply)
  then show ?thesis
    by (simp add: handle_def new_entry_def get_tap_sync_def Let_def
        split: qparam.splits tap_reply.splits)
next
  case (Predict b)
  then show ?thesis
    by (simp add: handle_def new_entry_def is_predict_def post_predict_def
        record_prediction_fields split: option.splits prod.splits)
next
  case (AiPredict b reply)
  show ?thesis
  proof (cases reply)
    case (AiData data)
    show ?thesis
    proof (cases "get_prop data ''confidence''")
      case None
      with AiPredict AiData show ?thesis
        by (simp add: handle_def new_entry_def post_ai_predict_def record_ai_null)
    next
      case (Some conf)
      with AiPredict AiData
        record_ai_fields(1,6) [OF Some, of rt "iso_now amb" b "modelStats sv"]
      show ?thesis
        by (simp add: handle_def new_entry_def is_predict_def post_ai_predict_def
            case_prod_beta)
    qed
  qed (simp_all add: AiPredict handle_def new_entry_def post_ai_predict_def)
next
  case ApiStats
  then show ?thesis by (simp add: handle_def new_entry_def get_api_stats_def Let_def)
qed

section \<open>Sequences of requests\<close>

lemma run_append: "run rt sv (xs @ ys) = run rt (run rt sv xs) ys"
  by (induction xs arbitrary: sv) auto






lemma run_api_calls:
  "api_calls_today (modelStats sv) \<le> api_calls_today (modelStats (run rt sv evs))"
proof (induction evs arbitrary: sv)
  case Nil
  show ?case by simp
next
  case (Cons ev evs)
  obtain amb r where ev: "ev = (amb, r)" by (cases ev)
  have "api_calls_today (modelStats sv) \<le>
          api_calls_today (modelStats (after (handle rt amb sv r)))"
    by (rule step_api_calls)
  also have "\<dots> \<le> api_calls_today (modelStats (run rt (after (handle rt amb sv r)) evs))"
    by (rule Cons.IH)
  finally show ?case by (simp add: ev)
qed

lemma run_last_reset: "last_reset (modelStats (run rt sv evs)) = last_reset (modelStats sv)"
  by (induction evs arbitrary: sv) (auto simp: step_api_calls)

subsection \<open>The history\<close>

lemma slice_last_rev: "slice_last n xs = rev (take n (rev xs))"
  by (simp add: slice_last_def rev_take)

lemma slice_last_again: "slice_last n (slice_last n xs @ ys) = slice_last n (xs @ ys)"
  by (simp add: slice_last_rev)

lemma slice_first_again: "slice_first n (xs @ slice_first n ys) = slice_first n (xs @ ys)"
  by (simp add: slice_first_def)

lemma length_slices:
  "length (slice_last n xs) \<le> n" "length (slice_first n xs) \<le> n"
  by (simp_all add: slice_last_def slice_first_def)

lemma newest_kept:
  "0 < n \<Longrightarrow> e \<in> set (slice_last n (xs @ [e]))"
  "0 < n \<Longrightarrow> e \<in> set (slice_first n (e # xs))"
  by (cases n; simp add: slice_last_rev slice_first_def)+

lemma entries_simps:
  "entries rt [] = []"
  "entries rt (ev # evs) =
     (case new_entry rt (fst ev) (snd ev) of None \<Rightarrow> [] | Some e \<Rightarrow> [e]) @ entries rt evs"
  by (simp_all add: entries_def)

lemma step_history_bound:
  "length (prediction_history (modelStats sv)) \<le> 100 \<Longrightarrow>
     length (prediction_history (modelStats (after (handle rt amb sv r)))) \<le> 100"
  by (simp add: step_history length_slices split: option.splits)

lemma run_history_bound:
  "length (prediction_history (modelStats sv)) \<le> 100 \<Longrightarrow>
     length (prediction_history (modelStats (run rt sv evs))) \<le> 100"
  by (induction evs arbitrary: sv) (auto simp: step_history_bound)

lemma new_entry_kind: "new_entry rt amb r = Some e \<Longrightarrow> is_predict r \<or> is_ai_predict r"
  by (cases r) (simp_all add: new_entry_def is_predict_def is_ai_predict_def)

lemma run_history_appending:
  "list_all (\<lambda>ev. \<not> is_ai_predict (snd ev)) evs \<Longrightarrow>
     length (prediction_history (modelStats sv)) \<le> 100 \<Longrightarrow>
     prediction_history (modelStats (run rt sv evs)) =
       slice_last 100 (prediction_history (modelStats sv) @ entries rt evs)"
proof (induction evs arbitrary: sv)
  case Nil
  then show ?case by (simp add: entries_simps slice_last_short)
next
  case (Cons ev evs)
  obtain amb r where ev: "ev = (amb, r)" by (cases ev)
  from Cons.prems ev have r: "\<not> is_ai_predict r"
    and rest: "list_all (\<lambda>ev. \<not> is_ai_predict (snd ev)) evs"
    by simp_all
  let ?sv = "after (handle rt amb sv r)"
  have bound: "length (prediction_history (modelStats ?sv)) \<le> 100"
    using Cons.prems(2) by (rule step_history_bound)
  have "prediction_history (modelStats (run rt sv (ev # evs))) =
          slice_last 100 (prediction_history (modelStats ?sv) @ entries rt evs)"
    using Cons.IH [OF rest bound] by (simp add: ev)
  also have "\<dots> = slice_last 100 (prediction_history (modelStats sv) @ entries rt (ev # evs))"
  proof (cases "new_entry rt amb r")
    case None
    then show ?thesis by (simp add: step_history entries_simps ev)
  next
    case (Some e)
    with r new_entry_kind have "is_predict r" by blast
    with Some show ?thesis
      using slice_last_again [of 100 "prediction_history (modelStats sv) @ [e]" "entries rt evs"]
      by (simp add: step_history entries_simps ev)
  qed
  finally show ?case .
qed

lemma run_history_prepending:
  "list_all (\<lambda>ev. \<not> is_predict (snd ev)) evs \<Longrightarrow>
     length (prediction_history (modelStats sv)) \<le> 100 \<Longrightarrow>
     prediction_history (modelStats (run rt sv evs)) =
       slice_first 100 (rev (entries rt evs) @ prediction_history (modelStats sv))"
proof (induction evs arbitrary: sv)
  case Nil
  then show ?case by (simp add: entries_simps slice_first_short)
next
  case (Cons ev evs)
  obtain amb r where ev: "ev = (amb, r)" by (cases ev)
  from Cons.prems ev have r: "\<not> is_predict r"
    and rest: "list_all (\<lambda>ev. \<not> is_predict (snd ev)) evs"
    by simp_all
  let ?sv = "after (handle rt amb sv r)"
  have bound: "length (prediction_history (modelStats ?sv)) \<le> 100"
    using Cons.prems(2) by (rule step_history_bound)
  have "prediction_history (modelStats (run rt sv (ev # evs))) =
          slice_first 100 (rev (entries rt evs) @ prediction_history (modelStats ?sv))"
    using Cons.IH [OF rest bound] by (simp add: ev)
  also have "\<dots> =
      slice_first 100 (rev (entries rt (ev # evs)) @ prediction_history (modelStats sv))"
  proof (cases "new_entry rt amb r")
    case None
    then show ?thesis by (simp add: step_history entries_simps ev)
  next
    case (Some e)
    then show ?thesis
      using slice_first_again
        [of 100 "rev (entries rt evs)" "e # prediction_history (modelStats sv)"]
      by (simp add: step_history entries_simps ev r)
  qed
  finally show ?case .
qed

lemmas sample_defs = fresh_def startServer_def loadStats_def default_stats_def monday_def
  sunday_def earthlike_def hot_giant_def tie_reply_def no_confidence_reply_def
  first_request_def later_request_def ai_request_def silent_request_def

lemma fresh_fields:
  "total_predictions (modelStats (fresh amb)) = 0"
  "confirmed_predictions (modelStats (fresh amb)) = 0"
  "rejected_predictions (modelStats (fresh amb)) = 0"
  "prediction_history (modelStats (fresh amb)) = []"
  "api_calls_today (modelStats (fresh amb)) = 0"
  "last_reset (modelStats (fresh amb)) = day_now amb"
  by (simp_all add: fresh_def startServer_def loadStats_def default_stats_def)


lemma sample_entries:
  "new_entry rt0 (fst first_request) (snd first_request) = Some first_entry"
  "new_entry rt0 (fst later_request) (snd later_request) = Some later_entry"
  "new_entry rt0 (fst ai_request) (snd ai_request) = Some tie_entry"
  by (simp_all add: sample_defs new_entry_def get_prop_def bad_features_array elements_def
      scoring_numeric spec_confidence_def spec_rules_def spec_verdict_def spec_reasoning_def
      first_entry_def later_entry_def tie_entry_def)

lemma step_api_exact:
  "api_calls_today (modelStats (after (handle rt amb sv r))) =
     api_calls_today (modelStats sv) +
       (case r of
          TapSync q f reply \<Rightarrow> 1
        | Predict b \<Rightarrow> 0
        | AiPredict b reply \<Rightarrow> (case reply of AiData data \<Rightarrow> 1 | _ \<Rightarrow> 0)
        | ApiStats \<Rightarrow> 1)"
proof (cases r)
  case (TapSync q f reply)
  then show ?thesis
    by (simp add: handle_def get_tap_sync_def Let_def split: qparam.splits tap_reply.splits)
next
  case (Predict b)
  then show ?thesis
    by (simp add: handle_def post_predict_def record_prediction_fields
        split: option.splits prod.splits)
next
  case (AiPredict b reply)
  show ?thesis
  proof (cases reply)
    case (AiData data)
    show ?thesis
    proof (cases "get_prop data ''confidence''")
      case None
      with AiPredict AiData show ?thesis
        by (simp add: handle_def post_ai_predict_def record_ai_null)
    next
      case (Some conf)
      with AiPredict AiData
        record_ai_fields(1,4) [OF Some, of rt "iso_now amb" b "modelStats sv"]
      show ?thesis
        by (simp add: handle_def post_ai_predict_def case_prod_beta)
    qed
  qed (simp_all add: AiPredict handle_def post_ai_predict_def)
next
  case ApiStats
  then show ?thesis by (simp add: handle_def get_api_stats_def Let_def)
qed

section \<open>The prediction counters\<close>




section \<open>The daily counter during a process lifetime\<close>

text \<open>
  C8. No request handler resets \<open>api_calls_today\<close>: along any sequence of \<open>/tap/sync\<close>,
  \<open>/predict\<close>, \<open>/ai/predict\<close> and \<open>/api/stats\<close> requests the counter never decreases, and
  \<open>last_reset\<close> stays what \<open>loadStats\<close> left at the start; \<open>saveStats\<close> does not touch the
  record either.
\<close>

theorem api_calls_never_reset_by_requests:
  "api_calls_today (modelStats (run rt sv xs)) \<le>
     api_calls_today (modelStats (run rt sv (xs @ ys)))
   \<and> last_reset (modelStats (run rt sv (xs @ ys))) = last_reset (modelStats sv)
   \<and> modelStats (saveStats amb sv) = modelStats sv"
  by (simp add: run_append run_api_calls run_last_reset)

theorem api_calls_never_reset_by_requests_witness:
  "api_calls_today (modelStats (run rt0 (fresh sunday) [(sunday, ApiStats)])) = 1
   \<and> api_calls_today
       (modelStats (run rt0 (fresh sunday)
          ([(sunday, ApiStats)] @
           [(monday, TapSync None None TapUnreachable), later_request, ai_request]))) = 3
   \<and> last_reset
       (modelStats (run rt0 (fresh sunday)
          ([(sunday, ApiStats)] @
           [(monday, TapSync None None TapUnreachable), later_request, ai_request]))) =
       day_now sunday"
  using api_calls_never_reset_by_requests [of rt0 "fresh sunday" "[(sunday, ApiStats)]"
      "[(monday, TapSync None None TapUnreachable), later_request, ai_request]" monday]
  by (simp add: step_api_exact fresh_fields later_request_def ai_request_def)

section \<open>The history\<close>

lemma entries_replicate:
  "new_entry rt (fst ev) (snd ev) = Some e \<Longrightarrow> entries rt (replicate n ev) = replicate n e"
  by (induction n) (simp_all add: entries_simps)

lemma slice_last_one_over: "length xs = Suc n \<Longrightarrow> slice_last n xs = tl xs"
  by (simp add: slice_last_def drop_Suc)

lemma slice_first_one_over: "length xs = Suc n \<Longrightarrow> slice_first n (rev xs) = rev (tl xs)"
  by (cases xs) (simp_all add: slice_first_def)

lemma serve_routed: "routes p r \<Longrightarrow> serve p rt amb sv r = handle rt amb sv r"
  by (cases r; cases p) (simp_all add: routes_def serve_def handle_def)

lemma serve_unrouted: "\<not> routes p r \<Longrightarrow> after (serve p rt amb sv r) = sv"
  by (cases r; cases p) (simp_all add: routes_def serve_def not_found_def)

lemma run_on_run: "run_on p rt sv evs = run rt sv (filter (\<lambda>ev. routes p (snd ev)) evs)"
proof (induction evs arbitrary: sv)
  case Nil
  show ?case by simp
next
  case (Cons ev evs)
  obtain amb r where ev: "ev = (amb, r)" by (cases ev)
  show ?case
    by (cases "routes p r") (simp_all add: ev Cons.IH serve_routed serve_unrouted)
qed

lemma routed_kinds:
  "list_all (\<lambda>ev. \<not> is_ai_predict (snd ev)) (filter (\<lambda>ev. routes PredictProgram (snd ev)) evs)"
  "list_all (\<lambda>ev. \<not> is_predict (snd ev)) (filter (\<lambda>ev. routes AiProgram (snd ev)) evs)"
  by (auto simp: list_all_iff routes_def is_ai_predict_def is_predict_def split: request.splits)

lemma run_on_history:
  assumes "length (prediction_history (modelStats sv)) \<le> 100"
  shows "prediction_history (modelStats (run_on p rt sv evs)) =
           (case p of
              PredictProgram \<Rightarrow>
                slice_last 100 (prediction_history (modelStats sv) @ recorded p rt evs)
            | AiProgram \<Rightarrow>
                slice_first 100 (rev (recorded p rt evs) @ prediction_history (modelStats sv)))"
  by (cases p)
     (simp_all add: run_on_run recorded_def run_history_appending [OF routed_kinds(1) assms]
        run_history_prepending [OF routed_kinds(2) assms])

lemma last_in_tl:
  assumes "length xs = Suc (Suc n)"
  shows "last xs \<in> set (tl xs)"
proof -
  from assms obtain a y ys where "xs = a # y # ys"
    by (metis length_Suc_conv)
  then show ?thesis using last_in_set [of "y # ys"] by simp
qed

text \<open>
  C4. In either program, from a history of at most 100 entries (the default record's is
  empty), the history has at most 100 entries after any sequence of requests: it is the
  latest 100 of what was there and what was recorded since, appended by \<open>POST /predict\<close> and
  prepended by \<open>POST /ai/predict\<close>. On a fresh record, once the 101st entry has been
  recorded, the history is the entries recorded without the first of them: the most
  recently recorded entry is present, and the oldest one is gone (it is in the history only
  if a later entry is equal to it).
\<close>

theorem history_bounded_oldest_evicted:
  assumes "length (prediction_history (modelStats sv)) \<le> 100"
  shows "length (prediction_history (modelStats (run_on p rt sv evs))) \<le> 100
     \<and> prediction_history (modelStats (run_on p rt sv evs)) =
         (case p of
            PredictProgram \<Rightarrow>
              slice_last 100 (prediction_history (modelStats sv) @ recorded p rt evs)
          | AiProgram \<Rightarrow>
              slice_first 100 (rev (recorded p rt evs) @ prediction_history (modelStats sv)))
     \<and> (length (recorded p rt evs) = 101 \<longrightarrow>
          prediction_history (modelStats (run_on p rt (fresh amb) evs)) =
            (case p of
               PredictProgram \<Rightarrow> tl (recorded p rt evs)
             | AiProgram \<Rightarrow> rev (tl (recorded p rt evs)))
          \<and> last (recorded p rt evs) \<in>
              set (prediction_history (modelStats (run_on p rt (fresh amb) evs)))
          \<and> (hd (recorded p rt evs) \<notin> set (tl (recorded p rt evs)) \<longrightarrow>
               hd (recorded p rt evs) \<notin>
                 set (prediction_history (modelStats (run_on p rt (fresh amb) evs)))))"
proof -
  have bound: "length (prediction_history (modelStats (run_on p rt sv evs))) \<le> 100"
    using run_history_bound [OF assms] by (simp add: run_on_run)
  have fresh: "prediction_history (modelStats (run_on p rt (fresh amb) evs)) =
          (case p of
             PredictProgram \<Rightarrow> tl (recorded p rt evs)
           | AiProgram \<Rightarrow> rev (tl (recorded p rt evs)))"
    if "length (recorded p rt evs) = 101"
    using that run_on_history [of "fresh amb" p rt evs]
    by (cases p) (simp_all add: fresh_fields slice_last_one_over slice_first_one_over)
  have newest: "last (recorded p rt evs) \<in>
      set (prediction_history (modelStats (run_on p rt (fresh amb) evs)))"
    if "length (recorded p rt evs) = 101"
    using fresh [OF that] last_in_tl [of "recorded p rt evs" 99] that
    by (cases p) simp_all
  have oldest: "hd (recorded p rt evs) \<notin>
      set (prediction_history (modelStats (run_on p rt (fresh amb) evs)))"
    if "length (recorded p rt evs) = 101"
      and "hd (recorded p rt evs) \<notin> set (tl (recorded p rt evs))"
    using fresh [OF that(1)] that(2) by (cases p) simp_all
  from bound run_on_history [OF assms] fresh newest oldest show ?thesis by blast
qed

lemma silent_entry_recorded:
  "new_entry rt0 (fst silent_request) (snd silent_request) = Some silent_entry"
  by (simp add: silent_request_def new_entry_def get_prop_def no_confidence_reply_def
      silent_entry_def monday_def)

lemma sample_routes:
  "routes PredictProgram (snd first_request)" "routes PredictProgram (snd later_request)"
  "\<not> routes PredictProgram (snd ai_request)" "\<not> routes PredictProgram (snd silent_request)"
  "\<not> routes AiProgram (snd first_request)" "\<not> routes AiProgram (snd later_request)"
  "routes AiProgram (snd ai_request)" "routes AiProgram (snd silent_request)"
  "routes p (ApiStats)" "new_entry rt amb ApiStats = None"
  by (simp_all add: routes_def first_request_def later_request_def ai_request_def
      silent_request_def new_entry_def)

lemma sample_recorded:
  "recorded PredictProgram rt0 predict_traffic = first_entry # replicate 100 later_entry"
  "recorded AiProgram rt0 ai_traffic = silent_entry # replicate 100 tie_entry"
  by (simp_all add: recorded_def predict_traffic_def ai_traffic_def sample_routes
      entries_simps sample_entries silent_entry_recorded entries_replicate)

lemma sample_entries_differ: "first_entry \<noteq> later_entry" "silent_entry \<noteq> tie_entry"
  by (simp_all add: first_entry_def later_entry_def predict_entry_def silent_entry_def
      tie_entry_def ai_entry_def tie_reply_def no_confidence_reply_def)

theorem history_bounded_oldest_evicted_witness:
  "length (prediction_history (modelStats (fresh sunday))) \<le> 100
   \<and> length (recorded PredictProgram rt0 predict_traffic) = 101
   \<and> hd (recorded PredictProgram rt0 predict_traffic) = first_entry
   \<and> prediction_history (modelStats (run_on PredictProgram rt0 (fresh sunday) predict_traffic)) =
       replicate 100 later_entry
   \<and> first_entry \<notin>
       set (prediction_history
             (modelStats (run_on PredictProgram rt0 (fresh sunday) predict_traffic)))
   \<and> length (recorded AiProgram rt0 ai_traffic) = 101
   \<and> hd (recorded AiProgram rt0 ai_traffic) = silent_entry
   \<and> prediction_history (modelStats (run_on AiProgram rt0 (fresh sunday) ai_traffic)) =
       replicate 100 tie_entry
   \<and> silent_entry \<notin>
       set (prediction_history (modelStats (run_on AiProgram rt0 (fresh sunday) ai_traffic)))"
  using history_bounded_oldest_evicted [of "fresh sunday" PredictProgram rt0 predict_traffic sunday]
    history_bounded_oldest_evicted [of "fresh sunday" AiProgram rt0 ai_traffic sunday]
    sample_entries_differ
  by (simp add: fresh_fields sample_recorded slice_last_one_over slice_first_def)

end
